theory Spec2Isabelle
  imports Complex_Main "HOL-Library.Sublist" "HOL-Library.Log_Nat"
begin

section \<open>Strings\<close>

text \<open>
  A JavaScript string is a sequence of UTF-16 code units. The development covers the strings
  whose code units are all below 256, written as \<open>char list\<close>, a \<open>char\<close> standing for the
  code unit (and Latin-1 code point) of the same number. On these strings
  \<open>String.prototype.toLowerCase\<close> maps code unit to code unit, and the white space of
  \<open>\s\<close> and of \<open>trim\<close> is TAB, LF, VT, FF, CR, SPACE and NO-BREAK SPACE.
\<close>

definition lower_char :: "char \<Rightarrow> char" where
  "lower_char c =
     (let n = (of_char c :: nat)
      in if (65 \<le> n \<and> n \<le> 90) \<or> (192 \<le> n \<and> n \<le> 214) \<or> (216 \<le> n \<and> n \<le> 222)
         then char_of (n + 32) else c)"

definition toLowerCase :: "string \<Rightarrow> string" where
  "toLowerCase s = map lower_char s"

definition is_space :: "char \<Rightarrow> bool" where
  "is_space c = ((of_char c :: nat) \<in> {9, 10, 11, 12, 13, 32, 160})"

text \<open>\<open>s.trim()\<close>: white space removed at both ends.\<close>

definition trim :: "string \<Rightarrow> string" where
  "trim s = rev (dropWhile is_space (rev (dropWhile is_space s)))"

text \<open>
  \<open>s.split(/\s+/)\<close>: the pieces of \<open>s\<close> between maximal runs of white space. A run at the
  start or at the end of \<open>s\<close> leaves an empty piece there, and the empty string gives one
  empty piece.
\<close>

function split_from :: "string \<Rightarrow> string \<Rightarrow> string list" where
  "split_from cur [] = [cur]"
| "split_from cur (c # cs) =
     (if is_space c then cur # split_from [] (dropWhile is_space cs)
      else split_from (cur @ [c]) cs)"
  by pat_completeness auto
termination
  by (relation "measure (\<lambda>(cur, s). length s)")
     (auto simp: length_dropWhile_le less_Suc_eq_le)

definition split_ws :: "string \<Rightarrow> string list" where
  "split_ws s = split_from [] s"

text \<open>
  \<open>s.includes(kw)\<close>, here \<open>str_includes s kw\<close>: \<open>kw\<close> occurs in \<open>s\<close> as a contiguous run,
  that is, some suffix of \<open>s\<close> starts with \<open>kw\<close>.
\<close>

fun startsWith :: "string \<Rightarrow> string \<Rightarrow> bool" where
  "startsWith s [] = True"
| "startsWith [] (k # ks) = False"
| "startsWith (c # cs) (k # ks) = (c = k \<and> startsWith cs ks)"

fun str_includes :: "string \<Rightarrow> string \<Rightarrow> bool" where
  "str_includes [] kw = (kw = [])"
| "str_includes (c # cs) kw = (startsWith (c # cs) kw \<or> str_includes cs kw)"

section \<open>Protocols\<close>

text \<open>
  The protocol record of \<open>page.tsx\<close>; the chat route reads \<open>name\<close>, \<open>content\<close> and
  \<open>source_file\<close> only, the quiz route \<open>categories\<close> only. \<open>categories\<close> is optional in the
  source (\<open>categories?: string[]\<close>), so a protocol may have none at all.
\<close>

record protocol =
  name :: string
  content :: string
  source_file :: string
  protocol_id :: string
  categories :: "string list option"

section \<open>The keyword-overlap scorer: \<open>findRelevantProtocols\<close> of the chat route\<close>

definition stop_words :: "string list" where
  "stop_words = [''is'', ''the'', ''for'', ''and'', ''a'', ''of'', ''to'', ''in'']"

definition queryKeywords :: "string \<Rightarrow> string list" where
  "queryKeywords query =
     filter (\<lambda>kw. length kw > 2 \<and> kw \<notin> set stop_words) (split_ws (toLowerCase query))"

text \<open>The body of \<open>queryKeywords.forEach\<close>: one keyword added to the running score.\<close>

definition score_keyword :: "string \<Rightarrow> string \<Rightarrow> string \<Rightarrow> int \<Rightarrow> int" where
  "score_keyword protocolNameLower protocolContentLower kw sc =
     (let sc1 = (if str_includes protocolNameLower kw then sc + 2 else sc);
          sc2 = (if str_includes protocolContentLower kw then sc1 + 1 else sc1)
      in sc2)"

definition protocol_score :: "string list \<Rightarrow> protocol \<Rightarrow> int" where
  "protocol_score keywords p =
     (let protocolNameLower = toLowerCase (name p);
          protocolContentLower = toLowerCase (content p);
          sc = fold (score_keyword protocolNameLower protocolContentLower) keywords 0;
          nameMatchCount = int (length (filter (str_includes protocolNameLower) keywords));
          contentMatchCount = int (length (filter (str_includes protocolContentLower) keywords));
          sc1 = (if nameMatchCount > 1 then sc + nameMatchCount * 2 else sc);
          sc2 = (if contentMatchCount > 1 then sc1 + contentMatchCount else sc1)
      in sc2)"

record scored =
  protocol :: protocol
  score :: int

text \<open>The callback of \<open>Object.values(protocols).map\<close>: the protocol with its score.\<close>

definition scoredProtocol :: "string list \<Rightarrow> protocol \<Rightarrow> scored" where
  "scoredProtocol keywords p = \<lparr>protocol = p, score = protocol_score keywords p\<rparr>"

text \<open>
  \<open>Array.prototype.sort(cmp)\<close> is a stable sort: elements that \<open>cmp\<close> does not order keep
  their input order. Insertion from the right, each element going in front of the first
  one it does not have to follow, is the stable sort for a comparator.
\<close>

fun insert_cmp :: "('a \<Rightarrow> 'a \<Rightarrow> int) \<Rightarrow> 'a \<Rightarrow> 'a list \<Rightarrow> 'a list" where
  "insert_cmp cmp x [] = [x]"
| "insert_cmp cmp x (y # ys) =
     (if cmp x y \<le> 0 then x # y # ys else y # insert_cmp cmp x ys)"

definition sort_cmp :: "('a \<Rightarrow> 'a \<Rightarrow> int) \<Rightarrow> 'a list \<Rightarrow> 'a list" where
  "sort_cmp cmp xs = foldr (insert_cmp cmp) xs []"

definition by_score_desc :: "scored \<Rightarrow> scored \<Rightarrow> int" where
  "by_score_desc a b = score b - score a"

text \<open>
  \<open>protocols\<close> is \<open>Object.values\<close> of the bundled \<open>protocols.json\<close>, which is not part of the
  sources: the corpus is an argument.
\<close>

definition findRelevantProtocols :: "protocol list \<Rightarrow> string \<Rightarrow> protocol list" where
  "findRelevantProtocols protocols query =
     (let keywords = queryKeywords query
      in if length keywords = 0 then []
         else
           let scoredProtocols = map (scoredProtocol keywords) protocols;
               sortedResults =
                 sort_cmp by_score_desc (filter (\<lambda>item. score item > 0) scoredProtocols)
           in map protocol (take 5 sortedResults))"

text \<open>
  The score as the specification words it: the tokens that survive the filter, two points
  for a token found in the lower-cased name and one for a token found in the lower-cased
  content, and the two bonuses on the numbers of \<^emph>\<open>distinct\<close> matching tokens.
\<close>

definition spec_tokens :: "string \<Rightarrow> string list" where
  "spec_tokens query =
     filter (\<lambda>t. \<not> length t \<le> 2 \<and> t \<notin> set stop_words) (split_ws (toLowerCase query))"

definition spec_base :: "string list \<Rightarrow> protocol \<Rightarrow> int" where
  "spec_base tokens p =
     sum_list (map (\<lambda>t. (if str_includes (toLowerCase (name p)) t then 2 else 0)
                        + (if str_includes (toLowerCase (content p)) t then 1 else 0)) tokens)"

definition spec_bonus :: "int \<Rightarrow> int \<Rightarrow> int" where
  "spec_bonus nameMatchCount contentMatchCount =
     (if nameMatchCount > 1 then nameMatchCount * 2 else 0)
     + (if contentMatchCount > 1 then contentMatchCount else 0)"

definition spec_score_distinct :: "string \<Rightarrow> protocol \<Rightarrow> int" where
  "spec_score_distinct query p =
     (let tokens = spec_tokens query
      in spec_base tokens p
         + spec_bonus
             (int (length (remdups (filter (str_includes (toLowerCase (name p))) tokens))))
             (int (length (remdups (filter (str_includes (toLowerCase (content p))) tokens)))))"

text \<open>The same with every occurrence of a matching token counted.\<close>

definition spec_score_occurrences :: "string \<Rightarrow> protocol \<Rightarrow> int" where
  "spec_score_occurrences query p =
     (let tokens = spec_tokens query
      in spec_base tokens p
         + spec_bonus
             (int (length (filter (str_includes (toLowerCase (name p))) tokens)))
             (int (length (filter (str_includes (toLowerCase (content p))) tokens))))"

definition cardiac_arrest :: protocol where
  "cardiac_arrest =
     \<lparr>name = ''Cardiac Arrest'', content = ''epinephrine every 3-5 minutes'',
      source_file = ''cardiac.pdf'', protocol_id = ''cardiac_arrest'', categories = None\<rparr>"

text \<open>A corpus of eight protocols, in load order, for the examples.\<close>

definition example_protocol :: "string \<Rightarrow> string \<Rightarrow> string \<Rightarrow> protocol" where
  "example_protocol key nm body =
     \<lparr>name = nm, content = body, source_file = ''protocols.pdf'', protocol_id = key,
      categories = None\<rparr>"

definition chest_pain :: protocol where
  "chest_pain = example_protocol ''1-1'' ''Chest Pain'' ''Pain of suspected cardiac origin''"

definition respiratory_arrest :: protocol where
  "respiratory_arrest = example_protocol ''1-2'' ''Respiratory Arrest'' ''Open the airway''"

definition burns :: protocol where
  "burns = example_protocol ''1-3'' ''Burns'' ''Cool the burn''"

definition cardiac_tamponade :: protocol where
  "cardiac_tamponade = example_protocol ''1-5'' ''Cardiac Tamponade'' ''Transport''"

definition traumatic_arrest :: protocol where
  "traumatic_arrest = example_protocol ''1-6'' ''Traumatic Arrest'' ''Control bleeding''"

definition stroke :: protocol where
  "stroke = example_protocol ''1-7'' ''Stroke'' ''Apply the cardiac monitor''"

definition post_arrest :: protocol where
  "post_arrest = example_protocol ''1-8'' ''Post Cardiac Arrest Care'' ''Titrate oxygen''"

definition example_corpus :: "protocol list" where
  "example_corpus =
     [chest_pain, respiratory_arrest, burns, cardiac_arrest, cardiac_tamponade,
      traumatic_arrest, stroke, post_arrest]"

section \<open>Category filters\<close>

text \<open>\<open>p.categories?.includes(c)\<close>: false for a protocol without categories.\<close>

definition has_category :: "protocol \<Rightarrow> string \<Rightarrow> bool" where
  "has_category p c = (case categories p of None \<Rightarrow> False | Some cs \<Rightarrow> c \<in> set cs)"

text \<open>
  The quiz route: \<open>pool.filter(p => p.categories?.some(c => categories.includes(c)))\<close>,
  applied only when \<open>categories.length\<close> is not 0. A protocol stays when one of its
  categories is selected.
\<close>

definition quiz_pool :: "string list \<Rightarrow> protocol list \<Rightarrow> protocol list" where
  "quiz_pool selected allProtocols =
     (let pool = allProtocols
      in if length selected \<noteq> 0
         then filter (\<lambda>p. case categories p of
                              None \<Rightarrow> False
                            | Some cs \<Rightarrow> list_ex (\<lambda>c. c \<in> set selected) cs) pool
         else pool)"

text \<open>The route answers 400 when the pool is empty, and goes on to shuffle it otherwise.\<close>

definition quiz_pool_checked :: "string list \<Rightarrow> protocol list \<Rightarrow> string + protocol list" where
  "quiz_pool_checked selected allProtocols =
     (let pool = quiz_pool selected allProtocols
      in if length pool = 0 then Inl ''No protocols found for selected categories.''
         else Inr pool)"

text \<open>
  The search page: \<open>protocolsList.filter(protocol => activeFilters.every(filter =>
  protocol.categories?.includes(filter)))\<close>, applied only when \<open>activeFilters.length > 0\<close>.
  A protocol stays when it has every active filter among its categories.
\<close>

definition filteredByCategories :: "string list \<Rightarrow> protocol list \<Rightarrow> protocol list" where
  "filteredByCategories activeFilters protocolsList =
     (if length activeFilters > 0
      then filter (\<lambda>p. list_all (\<lambda>f. has_category p f) activeFilters) protocolsList
      else protocolsList)"

section \<open>Fuzzy search\<close>

text \<open>
  The options both pages hand to Fuse.js. The weights and the threshold are decimal
  literals of the source, kept as the rationals they denote.
\<close>

record fuse_key =
  key_name :: string
  key_weight :: rat

record fuse_options =
  includeScore :: bool
  threshold :: rat
  keys :: "fuse_key list"

definition fuseOptions :: fuse_options where
  "fuseOptions =
     \<lparr>includeScore = True, threshold = 4 / 10,
      keys = [\<lparr>key_name = ''name'', key_weight = 6 / 10\<rparr>,
              \<lparr>key_name = ''id'', key_weight = 5 / 10\<rparr>,
              \<lparr>key_name = ''content'', key_weight = 2 / 10\<rparr>]\<rparr>"

text \<open>
  Fuse.js is a library the application imports; its code is not part of the sources. A
  search \<open>new Fuse(list, options).search(pattern)\<close> is an argument of the handlers below:
  any function from the options, the list and the pattern to a sequence of results.
\<close>

record fuse_result =
  item :: protocol
  refIndex :: nat
  fuse_score :: rat

type_synonym fuse_search = "fuse_options \<Rightarrow> protocol list \<Rightarrow> string \<Rightarrow> fuse_result list"

text \<open>The state of the first version of the page (\<open>useState\<close> hooks of \<open>Home\<close>).\<close>

record search_state =
  searchTerm :: string
  searchResults :: "protocol list"
  isSearching :: bool
  isChatMode :: bool

text \<open>
  \<open>handleSearch\<close> of the first version: the module's \<open>fuse\<close> is built over the whole
  \<open>protocolsList\<close>. \<open>!searchTerm.trim()\<close> holds when the trimmed term is the empty string.
\<close>

definition handleSearch :: "fuse_search \<Rightarrow> protocol list \<Rightarrow> search_state \<Rightarrow> search_state" where
  "handleSearch Fuse protocolsList st =
     (if trim (searchTerm st) = [] then st\<lparr>searchResults := []\<rparr>
      else
        let st1 = st\<lparr>isSearching := True\<rparr>;
            results = Fuse fuseOptions protocolsList (searchTerm st1);
            filteredResults = map item results
        in st1\<lparr>searchResults := filteredResults, isSearching := False, isChatMode := False\<rparr>)"

text \<open>The state of \<open>page.tsx\<close>, which adds the active filters and the calculator dialog.\<close>

record page_state = search_state +
  activeFilters :: "string list"
  isCalculatorOpen :: bool

text \<open>
  \<open>applyFiltersAndSearch\<close> of \<open>page.tsx\<close>: a new Fuse instance over the filtered list for
  each search.
\<close>

definition applyFiltersAndSearch :: "fuse_search \<Rightarrow> protocol list \<Rightarrow> page_state \<Rightarrow> page_state" where
  "applyFiltersAndSearch Fuse protocolsList st =
     (let filtered = filteredByCategories (activeFilters st) protocolsList
      in if trim (searchTerm st) = [] then st\<lparr>searchResults := filtered\<rparr>
         else
           let st1 = st\<lparr>isSearching := True\<rparr>;
               results = Fuse fuseOptions filtered (searchTerm st1);
               finalResults = map item results
           in st1\<lparr>searchResults := finalResults, isSearching := False\<rparr>)"

text \<open>
  Examples: two tagged protocols, a search that returns every protocol of its list, and
  two page states whose search term is white space only.
\<close>

definition pediatric_airway :: protocol where
  "pediatric_airway =
     \<lparr>name = ''Airway Management'', content = ''Position the airway'',
      source_file = ''airway.pdf'', protocol_id = ''2-1'',
      categories = Some [''adult'', ''pediatric'']\<rparr>"

definition trauma_bleeding :: protocol where
  "trauma_bleeding =
     \<lparr>name = ''Bleeding Control'', content = ''Apply direct pressure'',
      source_file = ''bleeding.pdf'', protocol_id = ''2-2'', categories = Some [''trauma'']\<rparr>"

definition tagged_corpus :: "protocol list" where
  "tagged_corpus = [pediatric_airway, trauma_bleeding]"

definition fuse_everything :: fuse_search where
  "fuse_everything opts list pattern =
     map (\<lambda>(i, p). \<lparr>item = p, refIndex = i, fuse_score = 0\<rparr>) (enumerate 0 list)"

definition blank_search :: search_state where
  "blank_search =
     \<lparr>searchTerm = ''  '', searchResults = [trauma_bleeding], isSearching = False,
      isChatMode = True\<rparr>"

definition blank_page :: page_state where
  "blank_page =
     \<lparr>searchTerm = ''  '', searchResults = [], isSearching = False, isChatMode = False,
      activeFilters = [''pediatric''], isCalculatorOpen = False\<rparr>"

section \<open>JavaScript numbers\<close>

text \<open>
  A Number is NaN, an infinity or a finite binary64 value, kept as the rational it is. The
  two zeros are one value \<open>Fin 0\<close>: the calculator compares numbers with \<open>===\<close> and \<open><\<close>,
  formats them with \<open>toFixed\<close> and divides only by numbers it has found not to be
  \<open>=== 0\<close> (or by a non-zero literal), and none of these tells \<open>-0\<close> from \<open>+0\<close>.
\<close>

datatype number = NaN | PosInf | NegInf | Fin rat

definition pow2 :: "int \<Rightarrow> rat" where
  "pow2 e = (if e \<ge> 0 then 2 ^ nat e else 1 / 2 ^ nat (- e))"

text \<open>
  For \<open>a > 0\<close>, the \<open>e\<close> with \<open>2\<^sup>e \<le> a < 2\<^sup>e\<^sup>+\<^sup>1\<close>: with \<open>a = p / q\<close> it is the difference
  \<open>d\<close> of the bit lengths of \<open>p\<close> and \<open>q\<close>, or \<open>d - 1\<close>.
\<close>

definition floor_log2 :: "rat \<Rightarrow> int" where
  "floor_log2 a =
     (let (p, q) = quotient_of a; d = bitlen p - bitlen q
      in if a < pow2 d then d - 1 else d)"

definition round_half_even :: "rat \<Rightarrow> int" where
  "round_half_even x =
     (let f = \<lfloor>x\<rfloor>; d = x - of_int f
      in if d < 1 / 2 then f else if d > 1 / 2 then f + 1 else if even f then f else f + 1)"

text \<open>
  Rounding a rational to binary64, to nearest with ties to even: a multiple \<open>m * 2\<^sup>e\<close> with
  \<open>m\<close> of at most 53 bits, where \<open>e\<close> is at least \<open>-1074\<close> (below \<open>2\<^sup>-\<^sup>1\<^sup>0\<^sup>2\<^sup>2\<close> the values are
  the subnormal ones, multiples of \<open>2\<^sup>-\<^sup>1\<^sup>0\<^sup>7\<^sup>4\<close>). The result is an infinity when the
  multiple is \<open>2\<^sup>1\<^sup>0\<^sup>2\<^sup>4\<close> or more, which is when the bit length of \<open>m\<close> plus \<open>e\<close> exceeds
  1024.
\<close>

definition round64 :: "rat \<Rightarrow> number" where
  "round64 r =
     (if r = 0 then Fin 0
      else
        let a = \<bar>r\<bar>;
            e = max (floor_log2 a - 52) (- 1074);
            m = round_half_even (a / pow2 e)
        in if bitlen m + e > 1024 then (if r > 0 then PosInf else NegInf)
           else Fin (if r > 0 then of_int m * pow2 e else - (of_int m * pow2 e)))"

definition isNaN :: "number \<Rightarrow> bool" where
  "isNaN x = (x = NaN)"

text \<open>\<open>x === y\<close> and \<open>x < y\<close> on Numbers: both are false when an operand is NaN.\<close>

definition js_eq :: "number \<Rightarrow> number \<Rightarrow> bool" where
  "js_eq x y = (x \<noteq> NaN \<and> y \<noteq> NaN \<and> x = y)"

fun js_less :: "number \<Rightarrow> number \<Rightarrow> bool" where
  "js_less NaN y = False"
| "js_less x NaN = False"
| "js_less PosInf y = False"
| "js_less NegInf y = (y \<noteq> NegInf)"
| "js_less (Fin a) PosInf = True"
| "js_less (Fin a) NegInf = False"
| "js_less (Fin a) (Fin b) = (a < b)"

text \<open>
  \<open>x * y\<close> and \<open>x / y\<close>: the exact result rounded. A zero divisor is taken as \<open>+0\<close>; the
  calculator never divides by a zero.
\<close>

definition negative :: "number \<Rightarrow> bool" where
  "negative x = (case x of NegInf \<Rightarrow> True | Fin a \<Rightarrow> a < 0 | _ \<Rightarrow> False)"

definition signed_inf :: "bool \<Rightarrow> number" where
  "signed_inf neg = (if neg then NegInf else PosInf)"

fun js_mul :: "number \<Rightarrow> number \<Rightarrow> number" where
  "js_mul NaN y = NaN"
| "js_mul x NaN = NaN"
| "js_mul (Fin a) (Fin b) = round64 (a * b)"
| "js_mul (Fin a) y = (if a = 0 then NaN else signed_inf (negative (Fin a) \<noteq> negative y))"
| "js_mul x (Fin b) = (if b = 0 then NaN else signed_inf (negative x \<noteq> negative (Fin b)))"
| "js_mul x y = signed_inf (negative x \<noteq> negative y)"

fun js_div :: "number \<Rightarrow> number \<Rightarrow> number" where
  "js_div NaN y = NaN"
| "js_div x NaN = NaN"
| "js_div (Fin a) (Fin b) =
     (if b = 0 then (if a = 0 then NaN else signed_inf (a < 0)) else round64 (a / b))"
| "js_div (Fin a) y = Fin 0"
| "js_div x (Fin b) = signed_inf (negative x \<noteq> negative (Fin b))"
| "js_div x y = NaN"

section \<open>\<open>parseFloat\<close> and \<open>toFixed\<close>\<close>

definition is_digit :: "char \<Rightarrow> bool" where
  "is_digit c = (48 \<le> (of_char c :: nat) \<and> (of_char c :: nat) \<le> 57)"

definition digits_value :: "string \<Rightarrow> nat" where
  "digits_value ds = foldl (\<lambda>n c. 10 * n + ((of_char c :: nat) - 48)) 0 ds"

text \<open>
  The value of an exponent part \<open>e\<close> or \<open>E\<close>, an optional sign and at least one digit, at
  the head of the string; 0 when there is none.
\<close>

definition exponent_part :: "string \<Rightarrow> int" where
  "exponent_part r =
     (case r of
        [] \<Rightarrow> 0
      | c # cs \<Rightarrow>
          if c = CHR ''e'' \<or> c = CHR ''E'' then
            (case cs of
               [] \<Rightarrow> 0
             | d # ds \<Rightarrow>
                 if d = CHR ''-'' then - int (digits_value (takeWhile is_digit ds))
                 else if d = CHR ''+'' then int (digits_value (takeWhile is_digit ds))
                 else int (digits_value (takeWhile is_digit cs)))
          else 0)"

definition pow10 :: "int \<Rightarrow> rat" where
  "pow10 e = (if e \<ge> 0 then 10 ^ nat e else 1 / 10 ^ nat (- e))"

text \<open>
  \<open>parseFloat(s)\<close>: leading white space is skipped and the longest prefix of the rest that
  is a decimal literal is read: an optional sign, then \<open>Infinity\<close>, or digits with an
  optional fraction, or a fraction alone, then an optional exponent part. NaN when there
  is no such prefix. The value is the literal's, rounded to binary64.
\<close>

definition parseFloat :: "string \<Rightarrow> number" where
  "parseFloat s =
     (let t = dropWhile is_space s;
          neg = (t \<noteq> [] \<and> hd t = CHR ''-'');
          u = (if t \<noteq> [] \<and> (hd t = CHR ''-'' \<or> hd t = CHR ''+'') then tl t else t)
      in if startsWith u ''Infinity'' then signed_inf neg
         else
           let ip = takeWhile is_digit u;
               r1 = dropWhile is_digit u;
               dot = (r1 \<noteq> [] \<and> hd r1 = CHR ''.'');
               fp = (if dot then takeWhile is_digit (tl r1) else []);
               r2 = (if dot then dropWhile is_digit (tl r1) else r1)
           in if ip = [] \<and> fp = [] then NaN
              else
                let mv = of_nat (digits_value (ip @ fp))
                           * pow10 (exponent_part r2 - int (length fp))
                in round64 (if neg then - mv else mv))"

text \<open>The decimal digits of a natural number, \<open>0\<close> for 0.\<close>

fun decimal :: "nat \<Rightarrow> string" where
  "decimal n =
     (if n < 10 then [char_of (48 + n)] else decimal (n div 10) @ [char_of (48 + n mod 10)])"

text \<open>
  \<open>x.toFixed(f)\<close>: for a finite \<open>x\<close> below \<open>10\<^sup>2\<^sup>1\<close> in absolute value, the integer \<open>n\<close> nearest
  to \<open>\<bar>x\<bar> * 10\<^sup>f\<close> (the larger of two), written with at least \<open>f + 1\<close> digits and a point
  before the last \<open>f\<close>. From \<open>10\<^sup>2\<^sup>1\<close> on the result is the exponent notation of
  \<open>Number::toString\<close>, which is outside this development: \<open>None\<close>.
\<close>

definition toFixed :: "nat \<Rightarrow> number \<Rightarrow> string option" where
  "toFixed f x =
     (case x of
        NaN \<Rightarrow> Some ''NaN''
      | PosInf \<Rightarrow> Some ''Infinity''
      | NegInf \<Rightarrow> Some ''-Infinity''
      | Fin r \<Rightarrow>
          if \<bar>r\<bar> \<ge> 10 ^ 21 then None
          else
            let s = (if r < 0 then ''-'' else []);
                n = nat \<lfloor>\<bar>r\<bar> * 10 ^ f + 1 / 2\<rfloor>;
                m = decimal n;
                mz = (if length m \<le> f then replicate (f + 1 - length m) CHR ''0'' @ m else m);
                k = length mz
            in Some (s @ (if f \<noteq> 0 then take (k - f) mz @ ''.'' @ drop (k - f) mz else m)))"

section \<open>The medication calculator: \<open>handleCalculate\<close>\<close>

record calc_state =
  calculationType :: string
  patientWeight :: string
  weightUnit :: string
  concMgPerMl :: string
  concMl :: string
  doseRequired :: string
  doseUnit :: string
  weightDoseResult :: "string option"
  totalVolume :: string
  totalTime :: string
  dripSet :: string
  dripRateResult :: "string option"
  inputValue :: string
  conversionResult :: "string option"
  error :: "string option"

text \<open>The literal \<open>2.20462\<close> of the source, as the binary64 value it denotes.\<close>

definition lbs_per_kg :: number where
  "lbs_per_kg = round64 (220462 / 100000)"

text \<open>\<open>parseNum\<close>: \<open>Inl\<close> is the message of the \<open>Error\<close> thrown.\<close>

definition parseNum :: "string \<Rightarrow> string + number" where
  "parseNum val =
     (let num = parseFloat val
      in if isNaN num \<or> js_less num (Fin 0)
         then Inl ''Invalid input: All numerical inputs must be positive numbers.''
         else Inr num)"

text \<open>The weight in kg, and the total dose in mg for the dose unit chosen.\<close>

definition finalWeightKg :: "string \<Rightarrow> number \<Rightarrow> number" where
  "finalWeightKg unit weight = (if unit = ''lbs'' then js_div weight lbs_per_kg else weight)"

definition totalDoseNeeded :: "string \<Rightarrow> number \<Rightarrow> number \<Rightarrow> number" where
  "totalDoseNeeded unit weightKg doseReq =
     (if unit = ''mg_kg'' then js_mul weightKg doseReq
      else if unit = ''mcg_kg'' then js_div (js_mul weightKg doseReq) (Fin 1000)
      else Fin 0)"

text \<open>
  The \<open>WEIGHT_DOSE\<close> case. A run ends in \<open>Some (Inl message)\<close> when it throws, in
  \<open>Some (Inr st)\<close> when it completes, and is \<open>None\<close> when it formats a number outside the
  range of \<open>toFixed\<close> above.
\<close>

definition weight_dose :: "calc_state \<Rightarrow> (string + calc_state) option" where
  "weight_dose st =
     (case parseNum (patientWeight st) of Inl e \<Rightarrow> Some (Inl e) | Inr weight \<Rightarrow>
      let weightKg = finalWeightKg (weightUnit st) weight
      in
      case parseNum (concMgPerMl st) of Inl e \<Rightarrow> Some (Inl e) | Inr concMg \<Rightarrow>
      case parseNum (concMl st) of Inl e \<Rightarrow> Some (Inl e) | Inr concInMl \<Rightarrow>
      if js_eq concInMl (Fin 0) then Some (Inl ''Concentration volume (mL) cannot be zero.'')
      else
      let drugConcPerMl = js_div concMg concInMl
      in
      case parseNum (doseRequired st) of Inl e \<Rightarrow> Some (Inl e) | Inr doseReq \<Rightarrow>
      let totalDose = totalDoseNeeded (doseUnit st) weightKg doseReq
      in
      if js_eq drugConcPerMl (Fin 0) \<and> \<not> js_eq totalDose (Fin 0)
      then Some (Inl ''Drug concentration (mg) cannot be zero if dose is required.'')
      else
      let volumeToAdminister =
            (if js_eq drugConcPerMl (Fin 0)
             then (if js_eq totalDose (Fin 0) then Fin 0 else PosInf)
             else js_div totalDose drugConcPerMl)
      in
      if js_eq volumeToAdminister PosInf
      then Some (Inr (st\<lparr>weightDoseResult :=
             Some ''Cannot calculate volume: Drug concentration is zero but dose is required.''\<rparr>))
      else
        (case (toFixed 2 totalDose, toFixed 2 volumeToAdminister) of
           (Some dose, Some volume) \<Rightarrow>
             Some (Inr (st\<lparr>weightDoseResult :=
               Some (''Total Dose: '' @ dose @ '' mg. Volume to Administer: '' @ volume
                     @ '' mL.'')\<rparr>))
         | _ \<Rightarrow> None))"

definition drip_rate :: "calc_state \<Rightarrow> (string + calc_state) option" where
  "drip_rate st =
     (case parseNum (totalVolume st) of Inl e \<Rightarrow> Some (Inl e) | Inr vol \<Rightarrow>
      case parseNum (totalTime st) of Inl e \<Rightarrow> Some (Inl e) | Inr time \<Rightarrow>
      case parseNum (dripSet st) of Inl e \<Rightarrow> Some (Inl e) | Inr dripSetNum \<Rightarrow>
      if js_eq time (Fin 0) then Some (Inl ''Time cannot be zero.'')
      else
        (case toFixed 0 (js_div (js_mul vol dripSetNum) time) of
           Some rate \<Rightarrow>
             Some (Inr (st\<lparr>dripRateResult := Some (''Drip Rate: '' @ rate @ '' gtts/min.'')\<rparr>))
         | None \<Rightarrow> None))"

definition conversion_lbs_kg :: "calc_state \<Rightarrow> (string + calc_state) option" where
  "conversion_lbs_kg st =
     (case parseNum (inputValue st) of Inl e \<Rightarrow> Some (Inl e) | Inr lbs \<Rightarrow>
      (case (toFixed 2 lbs, toFixed 2 (js_div lbs lbs_per_kg)) of
         (Some l, Some k) \<Rightarrow>
           Some (Inr (st\<lparr>conversionResult := Some (l @ '' lbs = '' @ k @ '' kg.'')\<rparr>))
       | _ \<Rightarrow> None))"

definition conversion_kg_lbs :: "calc_state \<Rightarrow> (string + calc_state) option" where
  "conversion_kg_lbs st =
     (case parseNum (inputValue st) of Inl e \<Rightarrow> Some (Inl e) | Inr kgs \<Rightarrow>
      (case (toFixed 2 kgs, toFixed 2 (js_mul kgs lbs_per_kg)) of
         (Some k, Some l) \<Rightarrow>
           Some (Inr (st\<lparr>conversionResult := Some (k @ '' kg = '' @ l @ '' lbs.'')\<rparr>))
       | _ \<Rightarrow> None))"

text \<open>
  \<open>handleCalculate\<close>: the error and the three results are cleared, the case of the
  calculation type runs, and a thrown error's message becomes the error shown
  (\<open>e.message || "An unexpected error occurred."\<close>). Nothing is thrown outside the \<open>try\<close>.
\<close>

definition handleCalculate :: "calc_state \<Rightarrow> calc_state option" where
  "handleCalculate st0 =
     (let st = st0\<lparr>error := None, weightDoseResult := None, dripRateResult := None,
                    conversionResult := None\<rparr>;
          run = (if calculationType st = ''WEIGHT_DOSE'' then weight_dose st
                 else if calculationType st = ''DRIP_RATE'' then drip_rate st
                 else if calculationType st = ''CONVERSION_LBS_KG'' then conversion_lbs_kg st
                 else if calculationType st = ''CONVERSION_KG_LBS'' then conversion_kg_lbs st
                 else Some (Inr st))
      in case run of
           None \<Rightarrow> None
         | Some (Inr st') \<Rightarrow> Some st'
         | Some (Inl message) \<Rightarrow>
             Some (st\<lparr>error := Some (if message = [] then ''An unexpected error occurred.''
                                      else message)\<rparr>))"

text \<open>The dialog as it opens, and the weight-based inputs of the examples.\<close>

definition initial_calc :: calc_state where
  "initial_calc =
     \<lparr>calculationType = ''WEIGHT_DOSE'', patientWeight = [], weightUnit = ''kg'',
      concMgPerMl = [], concMl = ''1'', doseRequired = [], doseUnit = ''mg_kg'',
      weightDoseResult = None, totalVolume = [], totalTime = [], dripSet = ''60'',
      dripRateResult = None, inputValue = [], conversionResult = None, error = None\<rparr>"

definition weight_dose_inputs :: "string \<Rightarrow> string \<Rightarrow> string \<Rightarrow> string \<Rightarrow> calc_state" where
  "weight_dose_inputs w mg ml dose =
     initial_calc\<lparr>patientWeight := w, concMgPerMl := mg, concMl := ml, doseRequired := dose\<rparr>"

definition dose_example :: calc_state where
  "dose_example = weight_dose_inputs ''70'' ''100'' ''1'' ''0.5''"

definition no_concentration :: calc_state where
  "no_concentration = weight_dose_inputs ''70'' ''0'' ''1'' ''0.5''"

definition no_weight_no_concentration :: calc_state where
  "no_weight_no_concentration = weight_dose_inputs ''0'' ''0'' ''1'' ''0.5''"

definition no_dose_no_concentration :: calc_state where
  "no_dose_no_concentration = weight_dose_inputs ''70'' ''0'' ''1'' ''0''"

section \<open>The scorer's score\<close>

lemma spec_tokens_eq: "spec_tokens query = queryKeywords query"
  by (simp add: spec_tokens_def queryKeywords_def not_le)

lemma fold_score_keyword:
  "fold (score_keyword n c) kws a =
     a + sum_list (map (\<lambda>t. (if str_includes n t then 2 else 0)
                            + (if str_includes c t then 1 else 0)) kws)"
  by (induction kws arbitrary: a) (simp_all add: score_keyword_def)

lemma protocol_score_eq:
  "protocol_score kws p =
     spec_base kws p
     + spec_bonus (int (length (filter (str_includes (toLowerCase (name p))) kws)))
                  (int (length (filter (str_includes (toLowerCase (content p))) kws)))"
  by (simp add: protocol_score_def spec_base_def spec_bonus_def fold_score_keyword Let_def)

text \<open>The example of the specification: three keywords, two of them in the name.\<close>

lemma scorer_spec_example:
  "queryKeywords ''what is cardiac arrest'' = [''what'', ''cardiac'', ''arrest'']
   \<and> protocol_score (queryKeywords ''what is cardiac arrest'') cardiac_arrest = 8
   \<and> findRelevantProtocols [cardiac_arrest] ''what is cardiac arrest'' = [cardiac_arrest]"
  by code_simp

lemma score_cardiac_twice:
  "protocol_score (queryKeywords ''cardiac cardiac'') cardiac_arrest = 8"
  by code_simp

lemma spec_score_cardiac_twice:
  "spec_score_distinct ''cardiac cardiac'' cardiac_arrest = 4"
  by code_simp

text \<open>
  C1, as stated: the score of a protocol is the specification's score with the bonuses on
  the numbers of distinct matching tokens. It fails for the query \<open>cardiac cardiac\<close>: the
  code counts the keyword twice and adds the name bonus, 8 in all, where one distinct
  token gives no bonus and a score of 4.
\<close>

theorem score_distinct_counterexample:
  "protocol_score (queryKeywords ''cardiac cardiac'') cardiac_arrest
   \<noteq> spec_score_distinct ''cardiac cardiac'' cardiac_arrest"
  by (simp add: score_cardiac_twice spec_score_cardiac_twice)

text \<open>
  C1, amended: for every protocol and every query, the score the scorer gives the protocol
  is the sum over the surviving tokens of 2 for a token in the lower-cased name and 1 for
  a token in the lower-cased content, plus \<open>nameMatchCount * 2\<close> if \<open>nameMatchCount > 1\<close> and
  plus \<open>contentMatchCount\<close> if \<open>contentMatchCount > 1\<close>, where the two counts are the numbers of
  surviving tokens found in the name and in the content, a token that occurs several times
  in the query counting each time.
\<close>

theorem score_occurrences:
  "protocol_score (queryKeywords query) p = spec_score_occurrences query p"
  by (simp add: spec_score_occurrences_def spec_tokens_eq protocol_score_eq Let_def)

section \<open>The scorer's output\<close>

lemma set_insert_cmp: "set (insert_cmp cmp x xs) = insert x (set xs)"
  by (induction xs) auto

lemma set_sort_cmp: "set (sort_cmp cmp xs) = set xs"
  by (induction xs) (simp_all add: sort_cmp_def set_insert_cmp)

lemma sorted_insert_by_score:
  "sorted_wrt (\<lambda>a b. score b \<le> score a) xs \<Longrightarrow>
   sorted_wrt (\<lambda>a b. score b \<le> score a) (insert_cmp by_score_desc x xs)"
proof (induction xs)
  case Nil
  then show ?case by simp
next
  case (Cons y ys)
  show ?case
  proof (cases "by_score_desc x y \<le> 0")
    case True
    then have "score y \<le> score x" by (simp add: by_score_desc_def)
    with Cons.prems True show ?thesis by auto
  next
    case False
    then have "score x \<le> score y" by (simp add: by_score_desc_def)
    with Cons False show ?thesis by (auto simp: set_insert_cmp)
  qed
qed

lemma sorted_sort_by_score:
  "sorted_wrt (\<lambda>a b. score b \<le> score a) (sort_cmp by_score_desc xs)"
proof (induction xs)
  case Nil
  show ?case by (simp add: sort_cmp_def)
next
  case (Cons x xs)
  then show ?case using sorted_insert_by_score [of "sort_cmp by_score_desc xs" x]
    by (simp add: sort_cmp_def)
qed

text \<open>Stability: the sort does not reorder the items of any one score.\<close>

lemma filter_insert_by_score:
  "filter (\<lambda>y. score y = k) (insert_cmp by_score_desc x xs) =
     (if score x = k then x # filter (\<lambda>y. score y = k) xs
      else filter (\<lambda>y. score y = k) xs)"
  by (induction xs) (auto simp: by_score_desc_def)

lemma filter_sort_by_score:
  "filter (\<lambda>y. score y = k) (sort_cmp by_score_desc xs) = filter (\<lambda>y. score y = k) xs"
proof (induction xs)
  case Nil
  show ?case by (simp add: sort_cmp_def)
next
  case (Cons x xs)
  have "sort_cmp by_score_desc (x # xs) = insert_cmp by_score_desc x (sort_cmp by_score_desc xs)"
    by (simp add: sort_cmp_def)
  then show ?case using Cons by (simp add: filter_insert_by_score)
qed

lemma prefix_filter_take: "prefix (filter P (take n xs)) (filter P xs)"
proof -
  have "filter P xs = filter P (take n xs) @ filter P (drop n xs)"
    by (metis append_take_drop_id filter_append)
  then show ?thesis by (simp add: prefix_def)
qed

lemma findRelevantProtocols_eq:
  "findRelevantProtocols ps q =
     (if queryKeywords q = [] then []
      else map protocol (take 5 (sort_cmp by_score_desc
             (filter (\<lambda>item. score item > 0) (map (scoredProtocol (queryKeywords q)) ps)))))"
  by (simp add: findRelevantProtocols_def Let_def)

lemma sorted_items_scored:
  "set (sort_cmp by_score_desc (filter (\<lambda>item. score item > 0) (map (scoredProtocol kws) ps)))
     \<subseteq> {item. score item = protocol_score kws (protocol item) \<and> score item > 0}"
  by (auto simp: set_sort_cmp scoredProtocol_def)

lemma map_protocol_filter:
  assumes "\<forall>item \<in> set xs. score item = f (protocol item)"
  shows "filter (\<lambda>p. f p = k) (map protocol xs) = map protocol (filter (\<lambda>item. score item = k) xs)"
  using assms by (induction xs) auto

lemma positive_scores:
  assumes "p \<in> set (findRelevantProtocols ps q)"
  shows "protocol_score (queryKeywords q) p > 0"
proof -
  let ?kws = "queryKeywords q"
  let ?srt = "sort_cmp by_score_desc (filter (\<lambda>item. score item > 0) (map (scoredProtocol ?kws) ps))"
  from assms have ne: "?kws \<noteq> []" by (auto simp: findRelevantProtocols_eq split: if_splits)
  with assms obtain item where "item \<in> set (take 5 ?srt)" and "p = protocol item"
    by (auto simp: findRelevantProtocols_eq)
  then have "item \<in> set ?srt" by (auto dest: in_set_takeD)
  with sorted_items_scored [of ?kws ps] \<open>p = protocol item\<close> show ?thesis by auto
qed

lemma scores_descending:
  "sorted_wrt (\<lambda>a b. b \<le> a) (map (protocol_score (queryKeywords q)) (findRelevantProtocols ps q))"
proof (cases "queryKeywords q = []")
  case True
  then show ?thesis by (simp add: findRelevantProtocols_eq)
next
  case False
  let ?kws = "queryKeywords q"
  let ?srt = "sort_cmp by_score_desc (filter (\<lambda>item. score item > 0) (map (scoredProtocol ?kws) ps))"
  have out: "findRelevantProtocols ps q = map protocol (take 5 ?srt)"
    using False by (simp add: findRelevantProtocols_eq)
  have "\<forall>item \<in> set (take 5 ?srt). protocol_score ?kws (protocol item) = score item"
    using sorted_items_scored [of ?kws ps] by (auto dest: in_set_takeD)
  then have eq: "map (protocol_score ?kws) (findRelevantProtocols ps q) = map score (take 5 ?srt)"
    unfolding out by simp
  have "sorted_wrt (\<lambda>a b. score b \<le> score a) (take 5 ?srt)"
    using sorted_sort_by_score by (rule sorted_wrt_take)
  then have "sorted_wrt (\<lambda>a b. b \<le> a) (map score (take 5 ?srt))"
    by (simp add: sorted_wrt_map)
  then show ?thesis unfolding eq .
qed

lemma ties_in_input_order:
  "prefix (filter (\<lambda>p. protocol_score (queryKeywords q) p = k) (findRelevantProtocols ps q))
          (filter (\<lambda>p. protocol_score (queryKeywords q) p = k) ps)"
proof (cases "queryKeywords q = []")
  case True
  then show ?thesis by (simp add: findRelevantProtocols_eq)
next
  case False
  let ?kws = "queryKeywords q"
  let ?pos = "filter (\<lambda>item. score item > 0) (map (scoredProtocol ?kws) ps)"
  let ?srt = "sort_cmp by_score_desc ?pos"
  have sc: "\<forall>item \<in> set (take 5 ?srt). score item = protocol_score ?kws (protocol item)"
    using sorted_items_scored [of ?kws ps] by (auto dest: in_set_takeD)
  have out: "filter (\<lambda>p. protocol_score ?kws p = k) (findRelevantProtocols ps q)
             = map protocol (filter (\<lambda>item. score item = k) (take 5 ?srt))"
    using False map_protocol_filter [OF sc] by (simp add: findRelevantProtocols_eq)
  have "prefix (filter (\<lambda>item. score item = k) (take 5 ?srt)) (filter (\<lambda>item. score item = k) ?srt)"
    by (rule prefix_filter_take)
  then have "prefix (filter (\<lambda>item. score item = k) (take 5 ?srt)) (filter (\<lambda>item. score item = k) ?pos)"
    by (simp add: filter_sort_by_score)
  then have pre: "prefix (map protocol (filter (\<lambda>item. score item = k) (take 5 ?srt)))
                         (map protocol (filter (\<lambda>item. score item = k) ?pos))"
    by (rule map_mono_prefix)
  have inp: "map protocol (filter (\<lambda>item. score item = k) ?pos)
             = filter (\<lambda>p. protocol_score ?kws p = k \<and> protocol_score ?kws p > 0) ps"
    by (induction ps) (auto simp: scoredProtocol_def)
  show ?thesis
  proof (cases "k > 0")
    case True
    then have "filter (\<lambda>p. protocol_score ?kws p = k \<and> protocol_score ?kws p > 0) ps
               = filter (\<lambda>p. protocol_score ?kws p = k) ps"
      by (intro filter_cong) auto
    with pre inp out show ?thesis by simp
  next
    case False
    then have "filter (\<lambda>p. protocol_score ?kws p = k \<and> protocol_score ?kws p > 0) ps = []"
      by (auto simp: filter_empty_conv)
    with pre inp out show ?thesis by simp
  qed
qed

lemma at_most_five: "length (findRelevantProtocols ps q) \<le> 5"
  by (simp add: findRelevantProtocols_eq)

lemma example_scores:
  "map (protocol_score (queryKeywords ''cardiac arrest care'')) example_corpus
     = [1, 2, 0, 8, 2, 2, 1, 12]"
  by code_simp

lemma example_output:
  "findRelevantProtocols example_corpus ''cardiac arrest care''
     = [post_arrest, cardiac_arrest, respiratory_arrest, cardiac_tamponade, traumatic_arrest]"
  by code_simp

text \<open>
  C4: for every query and corpus, every protocol the scorer returns has a score above 0;
  the scores of the returned protocols, read in output order, never increase; for each
  score, the returned protocols of that score are an initial part of the corpus's
  protocols of that score, in corpus order (ties keep their input order); and at most 5
  protocols are returned.
\<close>

theorem findRelevantProtocols_output:
  "(\<forall>p \<in> set (findRelevantProtocols ps q). 0 < protocol_score (queryKeywords q) p)
   \<and> sorted_wrt (\<lambda>a b. b \<le> a)
        (map (protocol_score (queryKeywords q)) (findRelevantProtocols ps q))
   \<and> (\<forall>k. prefix
              (filter (\<lambda>p. protocol_score (queryKeywords q) p = k) (findRelevantProtocols ps q))
              (filter (\<lambda>p. protocol_score (queryKeywords q) p = k) ps))
   \<and> length (findRelevantProtocols ps q) \<le> 5"
  using positive_scores scores_descending ties_in_input_order at_most_five by blast

theorem findRelevantProtocols_output_witness:
  "findRelevantProtocols example_corpus ''cardiac arrest care''
     = [post_arrest, cardiac_arrest, respiratory_arrest, cardiac_tamponade, traumatic_arrest]
   \<and> 0 < protocol_score (queryKeywords ''cardiac arrest care'') post_arrest
   \<and> 0 < protocol_score (queryKeywords ''cardiac arrest care'') respiratory_arrest
   \<and> 0 < protocol_score (queryKeywords ''cardiac arrest care'') traumatic_arrest"
  using findRelevantProtocols_output [of example_corpus "''cardiac arrest care''", THEN conjunct1]
  unfolding example_output by simp

section \<open>A query without keywords\<close>

lemma stop_words_only: "queryKeywords ''is the a for  to and'' = []"
  by code_simp

text \<open>
  C5: for every query of which no token survives, each token of the lower-cased query being
  of length at most 2 or a stop word, the scorer returns the empty sequence, whatever the
  corpus: no protocol is scored.
\<close>

theorem no_keywords_no_context:
  assumes "list_all (\<lambda>t. length t \<le> 2 \<or> t \<in> set stop_words) (split_ws (toLowerCase query))"
  shows "findRelevantProtocols ps query = []"
proof -
  from assms have "queryKeywords query = []"
    by (auto simp: queryKeywords_def filter_empty_conv list_all_iff)
  then show ?thesis by (simp add: findRelevantProtocols_def)
qed

theorem no_keywords_no_context_witness:
  "list_all (\<lambda>t. length t \<le> 2 \<or> t \<in> set stop_words)
     (split_ws (toLowerCase ''is the a for  to and''))
   \<and> findRelevantProtocols example_corpus ''is the a for  to and'' = []"
proof -
  have h: "list_all (\<lambda>t. length t \<le> 2 \<or> t \<in> set stop_words)
             (split_ws (toLowerCase ''is the a for  to and''))"
    using stop_words_only by (auto simp: queryKeywords_def filter_empty_conv list_all_iff)
  from h no_keywords_no_context [OF h, of example_corpus] show ?thesis by blast
qed

section \<open>The two category filters\<close>

lemma quiz_pool_single:
  "quiz_pool [c] ps = filter (\<lambda>p. has_category p c) ps"
proof -
  have "(case categories p of None \<Rightarrow> False | Some cs \<Rightarrow> list_ex (\<lambda>c'. c' \<in> set [c]) cs)
        = has_category p c" for p
    by (cases "categories p") (auto simp: has_category_def list_ex_iff)
  then show ?thesis by (simp add: quiz_pool_def)
qed

lemma filteredByCategories_single:
  "filteredByCategories [c] ps = filter (\<lambda>p. has_category p c) ps"
  by (simp add: filteredByCategories_def)

lemma pediatric_example:
  "filteredByCategories [''pediatric''] tagged_corpus = [pediatric_airway]
   \<and> quiz_pool [''pediatric''] tagged_corpus = [pediatric_airway]"
  by code_simp

text \<open>
  C3: for every corpus, with nothing selected both filters return the corpus unchanged, the
  quiz route's (a protocol stays when one of its categories is selected) and the search
  page's (a protocol stays when it has every selected category); and for one selected
  category \<open>c\<close> the two return the same list, the protocols of the corpus, in order, that
  have categories and \<open>c\<close> among them.
\<close>

theorem category_filters_agree:
  "quiz_pool [] ps = ps
   \<and> filteredByCategories [] ps = ps
   \<and> quiz_pool [c] ps = filteredByCategories [c] ps
   \<and> filteredByCategories [c] ps
       = filter (\<lambda>p. case categories p of None \<Rightarrow> False | Some cs \<Rightarrow> c \<in> set cs) ps"
proof -
  have "quiz_pool [] ps = ps" by (simp add: quiz_pool_def)
  moreover have "filteredByCategories [] ps = ps" by (simp add: filteredByCategories_def)
  moreover have "quiz_pool [c] ps = filteredByCategories [c] ps"
    by (simp only: quiz_pool_single filteredByCategories_single)
  moreover have "filteredByCategories [c] ps
       = filter (\<lambda>p. case categories p of None \<Rightarrow> False | Some cs \<Rightarrow> c \<in> set cs) ps"
    by (simp add: filteredByCategories_single has_category_def)
  ultimately show ?thesis by blast
qed

section \<open>Searching with a blank query\<close>

lemma blank_term: "trim ''  '' = []"
  by code_simp

lemma blank_page_results:
  "searchResults (applyFiltersAndSearch fuse_everything tagged_corpus blank_page)
     = [pediatric_airway]"
  by code_simp

text \<open>
  C2, as stated: with a non-empty corpus and a query of white space only, every search
  path returns the empty sequence. \<open>applyFiltersAndSearch\<close> does not: with the filter
  \<open>pediatric\<close> active it returns the one protocol of the corpus tagged \<open>pediatric\<close>.
\<close>

theorem blank_query_counterexample:
  "tagged_corpus \<noteq> [] \<and> trim (searchTerm blank_page) = []
   \<and> searchResults (applyFiltersAndSearch fuse_everything tagged_corpus blank_page) \<noteq> []"
  by (simp add: blank_page_results) (simp add: blank_page_def blank_term tagged_corpus_def)

text \<open>
  C2, amended: with an empty or white-space-only query, \<open>handleSearch\<close> returns the empty
  sequence, and \<open>applyFiltersAndSearch\<close> returns the protocols of the corpus that have
  every active filter among their categories (the whole corpus when no filter is active);
  neither invokes the Fuse.js search, whatever it would return.
\<close>

theorem blank_query_results:
  assumes "trim (searchTerm s) = []" and "trim (searchTerm t) = []"
  shows "searchResults (handleSearch Fuse ps s) = []
         \<and> searchResults (applyFiltersAndSearch Fuse ps t) = filteredByCategories (activeFilters t) ps"
  using assms by (simp add: handleSearch_def applyFiltersAndSearch_def)

theorem blank_query_results_witness:
  "trim (searchTerm blank_search) = [] \<and> trim (searchTerm blank_page) = []
   \<and> searchResults (handleSearch fuse_everything tagged_corpus blank_search) = []
   \<and> searchResults (applyFiltersAndSearch fuse_everything tagged_corpus blank_page)
       = filteredByCategories (activeFilters blank_page) tagged_corpus"
proof -
  have s: "trim (searchTerm blank_search) = []" by (simp add: blank_search_def blank_term)
  have t: "trim (searchTerm blank_page) = []" by (simp add: blank_page_def blank_term)
  from s t blank_query_results [OF s t, of fuse_everything tagged_corpus] show ?thesis by blast
qed

section \<open>Rounding to binary64\<close>

lemma pow2_powi: "pow2 e = 2 powi e"
  by (simp add: pow2_def power_int_def power_one_over)

lemma pow2_pos: "0 < pow2 e"
  by (simp add: pow2_powi)

lemma pow2_add: "pow2 (m + n) = pow2 m * pow2 n"
  by (simp add: pow2_powi power_int_add)

lemma pow2_less_iff: "pow2 m < pow2 n \<longleftrightarrow> m < n"
proof
  assume "pow2 m < pow2 n"
  show "m < n"
  proof (rule ccontr)
    assume "\<not> m < n"
    then have "n \<le> m" by simp
    then have "pow2 n \<le> pow2 m" unfolding pow2_powi by (intro power_int_increasing) auto
    with \<open>pow2 m < pow2 n\<close> show False by simp
  qed
next
  assume "m < n"
  then show "pow2 m < pow2 n" unfolding pow2_powi by (intro power_int_strict_increasing) auto
qed

lemma pow2_le_iff: "pow2 m \<le> pow2 n \<longleftrightarrow> m \<le> n"
  using pow2_less_iff [of n m] by (auto simp: not_less [symmetric])

lemma of_int_bitlen_bounds:
  assumes "0 < p"
  shows "pow2 (bitlen p - 1) \<le> of_int p" and "of_int p < pow2 (bitlen p)"
proof -
  from assms have b: "1 \<le> bitlen p" by (simp add: bitlen_alt_def)
  from bitlen_bounds [OF assms] have lo: "(2::int) ^ nat (bitlen p - 1) \<le> p"
    and hi: "p < (2::int) ^ nat (bitlen p)" by simp_all
  from lo have "(of_int ((2::int) ^ nat (bitlen p - 1)) :: rat) \<le> of_int p"
    by (simp only: of_int_le_iff)
  with b show "pow2 (bitlen p - 1) \<le> of_int p" by (simp add: pow2_def)
  from hi have "(of_int p :: rat) < of_int ((2::int) ^ nat (bitlen p))"
    by (simp only: of_int_less_iff)
  with b show "of_int p < pow2 (bitlen p)" by (simp add: pow2_def)
qed

lemma floor_log2_bounds:
  assumes "0 < a"
  shows "pow2 (floor_log2 a) \<le> a" and "a < pow2 (floor_log2 a + 1)"
proof -
  obtain p q where pq: "quotient_of a = (p, q)" by (cases "quotient_of a")
  then have q: "0 < q" by (rule quotient_of_denom_pos)
  from pq have a: "a = of_int p / of_int q" by (rule quotient_of_div)
  with assms q have p: "0 < p" by (simp add: zero_less_divide_iff)
  let ?d = "bitlen p - bitlen q"
  note bp = of_int_bitlen_bounds [OF p] and bq = of_int_bitlen_bounds [OF q]
  have qpos: "(0::rat) < of_int q" using q by simp
  have "pow2 (?d - 1) * of_int q < pow2 (?d - 1) * pow2 (bitlen q)"
    using bq(2) pow2_pos by simp
  also have "\<dots> = pow2 (bitlen p - 1)" by (simp add: pow2_add [symmetric])
  also have "\<dots> \<le> of_int p" by (rule bp(1))
  finally have lo: "pow2 (?d - 1) < a" using qpos by (simp add: a pos_less_divide_eq)
  have "of_int p < pow2 (bitlen p)" by (rule bp(2))
  also have "\<dots> = pow2 (?d + 1) * pow2 (bitlen q - 1)" by (simp add: pow2_add [symmetric])
  also have "\<dots> \<le> pow2 (?d + 1) * of_int q" using bq(1) pow2_pos by simp
  finally have hi: "a < pow2 (?d + 1)" using qpos by (simp add: a pos_divide_less_eq)
  have fl: "floor_log2 a = (if a < pow2 ?d then ?d - 1 else ?d)"
    by (simp add: floor_log2_def pq)
  show "pow2 (floor_log2 a) \<le> a" using lo by (simp add: fl)
  show "a < pow2 (floor_log2 a + 1)" using hi by (simp add: fl)
qed

lemma round_half_even_nonneg: "0 \<le> x \<Longrightarrow> 0 \<le> round_half_even x"
  by (auto simp: round_half_even_def Let_def)

lemma round_half_even_le:
  assumes "x < of_int N" shows "round_half_even x \<le> N"
proof -
  from assms have "\<lfloor>x\<rfloor> < N" by (simp add: floor_less_iff)
  then show ?thesis by (auto simp: round_half_even_def Let_def)
qed

lemma round64_zero: "round64 0 = Fin 0"
  by (simp add: round64_def)

lemma round64_finite:
  assumes "0 < a" and "a < pow2 1023"
  shows "\<exists>x. round64 a = Fin x"
proof -
  let ?fl = "floor_log2 a"
  let ?e = "max (?fl - 52) (- 1074)"
  let ?m = "round_half_even (a / pow2 ?e)"
  from floor_log2_bounds [OF assms(1)] have lo: "pow2 ?fl \<le> a" and hi: "a < pow2 (?fl + 1)"
    by simp_all
  from lo assms(2) have "pow2 ?fl < pow2 1023" by simp
  then have fl: "?fl < 1023" by (simp only: pow2_less_iff)
  then have e: "?e \<le> 970" by simp
  have "?fl + 1 \<le> ?e + 53" by simp
  then have "pow2 (?fl + 1) \<le> pow2 (?e + 53)" by (simp only: pow2_le_iff)
  with hi have "a < pow2 ?e * pow2 53" by (simp add: pow2_add)
  then have "a / pow2 ?e < pow2 53" using pow2_pos [of ?e] by (simp add: pos_divide_less_eq mult.commute)
  also have "pow2 53 = of_int (2 ^ 53)" by (simp add: pow2_def)
  finally have "?m \<le> 2 ^ 53" by (rule round_half_even_le)
  then have "?m < 2 ^ nat 54" by simp
  then have "bitlen ?m \<le> 54" by (simp only: bitlen_le_iff_power) simp
  with e have "\<not> bitlen ?m + ?e > 1024" by simp
  with assms(1) show ?thesis by (simp add: round64_def Let_def)
qed

lemma round64_Fin_bound:
  assumes "round64 r = Fin x"
  shows "\<bar>x\<bar> < pow2 1024"
proof (cases "r = 0")
  case True
  with assms show ?thesis by (simp add: round64_def pow2_pos)
next
  case False
  let ?a = "\<bar>r\<bar>"
  let ?e = "max (floor_log2 ?a - 52) (- 1074)"
  let ?m = "round_half_even (?a / pow2 ?e)"
  from False assms have nb: "\<not> bitlen ?m + ?e > 1024"
    by (auto simp: round64_def Let_def split: if_splits)
  from False assms have x: "\<bar>x\<bar> = \<bar>of_int ?m * pow2 ?e\<bar>"
    by (auto simp: round64_def Let_def split: if_splits)
  have m0: "0 \<le> ?m" using pow2_pos [of ?e] by (intro round_half_even_nonneg) simp
  show ?thesis
  proof (cases "?m = 0")
    case True
    with x show ?thesis by (simp add: pow2_pos)
  next
    case False
    with m0 have mp: "0 < ?m" by simp
    from of_int_bitlen_bounds(2) [OF mp] have "of_int ?m * pow2 ?e < pow2 (bitlen ?m) * pow2 ?e"
      using pow2_pos [of ?e] by simp
    also have "\<dots> = pow2 (bitlen ?m + ?e)" by (simp add: pow2_add)
    also have "\<dots> \<le> pow2 1024" using nb by (simp only: pow2_le_iff)
    finally have "of_int ?m * pow2 ?e < pow2 1024" .
    moreover have "0 \<le> of_int ?m * pow2 ?e" using m0 pow2_pos [of ?e] by simp
    ultimately show ?thesis using x by simp
  qed
qed

lemma signed_inf_not_Fin: "signed_inf b \<noteq> Fin x"
  by (simp add: signed_inf_def)

lemma parseFloat_Fin_bound:
  assumes "parseFloat v = Fin w"
  shows "\<bar>w\<bar> < pow2 1024"
  using assms
  by (auto simp: parseFloat_def Let_def signed_inf_not_Fin split: if_splits
           intro: round64_Fin_bound)

lemma round_half_even_error: "\<bar>of_int (round_half_even x) - x\<bar> \<le> 1 / 2"
proof -
  have "of_int \<lfloor>x\<rfloor> \<le> x" and "x < of_int \<lfloor>x\<rfloor> + 1" by linarith+
  then show ?thesis by (auto simp: round_half_even_def Let_def abs_if; linarith)
qed

lemma times_of_quotient:
  fixes a b c :: rat
  assumes "0 < c" and "a / c = b"
  shows "b * c = a"
  using assms by (auto simp: field_simps)

lemma round_half_even_of_int: "round_half_even (of_int n) = n"
  by (simp add: round_half_even_def)

lemma floor_log2_unique:
  assumes "0 < a" and "pow2 k \<le> a" and "a < pow2 (k + 1)"
  shows "floor_log2 a = k"
proof -
  from floor_log2_bounds [OF assms(1)] have lo: "pow2 (floor_log2 a) \<le> a"
    and hi: "a < pow2 (floor_log2 a + 1)" by simp_all
  from lo assms(3) have "pow2 (floor_log2 a) < pow2 (k + 1)" by simp
  then have "floor_log2 a < k + 1" by (simp only: pow2_less_iff)
  moreover from assms(2) hi have "pow2 k < pow2 (floor_log2 a + 1)" by simp
  then have "k < floor_log2 a + 1" by (simp only: pow2_less_iff)
  ultimately show ?thesis by simp
qed

lemma round64_pos:
  assumes "0 < a"
  shows "round64 a =
     (if bitlen (round_half_even (a / pow2 (max (floor_log2 a - 52) (- 1074))))
           + max (floor_log2 a - 52) (- 1074) > 1024
      then PosInf
      else Fin (of_int (round_half_even (a / pow2 (max (floor_log2 a - 52) (- 1074))))
                 * pow2 (max (floor_log2 a - 52) (- 1074))))"
  using assms by (simp add: round64_def Let_def)

text \<open>
  A value \<open>m * 2\<^sup>e\<close> with \<open>m\<close> below \<open>2\<^sup>5\<^sup>3\<close>, \<open>e\<close> at least \<open>-1074\<close> and magnitude below
  \<open>2\<^sup>1\<^sup>0\<^sup>2\<^sup>4\<close> is a binary64 value, and rounding leaves it as it is.
\<close>

lemma round64_representable:
  assumes "0 < m" and "m < 2 ^ 53" and "- 1074 \<le> e" and "bitlen m + e \<le> 1024"
  shows "round64 (of_int m * pow2 e) = Fin (of_int m * pow2 e)"
proof -
  let ?a = "of_int m * pow2 e :: rat"
  let ?b = "bitlen m"
  have a: "0 < ?a" using assms(1) pow2_pos [of e] by simp
  have b1: "1 \<le> ?b" using assms(1) by (simp add: bitlen_alt_def)
  have b53: "?b \<le> 53" using assms(2) by (simp add: bitlen_le_iff_power)
  from of_int_bitlen_bounds [OF assms(1)]
  have "pow2 (?b - 1) * pow2 e \<le> ?a" and "?a < pow2 ?b * pow2 e"
    using pow2_pos [of e] by simp_all
  then have "pow2 (?b - 1 + e) \<le> ?a" and "?a < pow2 (?b - 1 + e + 1)"
    by (simp_all add: pow2_add [symmetric])
  from floor_log2_unique [OF a this] have fl: "floor_log2 ?a = ?b - 1 + e" .
  let ?e = "max (floor_log2 ?a - 52) (- 1074)"
  have le: "?e \<le> e" using fl b53 assms(3) by simp
  define d where "d = nat (e - ?e)"
  have e: "e = ?e + int d" using le by (simp add: d_def)
  have "?a / pow2 ?e = of_int m * pow2 (int d)"
    using pow2_pos [of ?e] by (subst e) (simp add: pow2_add)
  also have "\<dots> = of_int (m * 2 ^ d)" by (simp add: pow2_def)
  finally have q: "?a / pow2 ?e = of_int (m * 2 ^ d)" .
  have m: "round_half_even (?a / pow2 ?e) = m * 2 ^ d"
    by (simp only: q round_half_even_of_int)
  have v: "of_int (m * 2 ^ d) * pow2 ?e = ?a"
    using pow2_pos q by (rule times_of_quotient)
  have "bitlen (m * 2 ^ d) + ?e = ?b + e"
    using assms(1) by (subst e) (simp add: bitlen_pow2)
  with assms(4) have nb: "\<not> bitlen (m * 2 ^ d) + ?e > 1024" by simp
  from round64_pos [OF a]
  have "round64 ?a =
          (if bitlen (m * 2 ^ d) + ?e > 1024 then PosInf else Fin (of_int (m * 2 ^ d) * pow2 ?e))"
    unfolding m .
  with nb show ?thesis by (simp only: v if_False)
qed

lemma overflow_iff:
  assumes "0 < m"
  shows "(pow2 1024 \<le> of_int m * pow2 e) = (1024 < bitlen m + e)"
proof
  note b = of_int_bitlen_bounds [OF assms]
  {
    assume "pow2 1024 \<le> of_int m * pow2 e"
    also have "of_int m * pow2 e < pow2 (bitlen m) * pow2 e" using b(2) pow2_pos [of e] by simp
    finally have "pow2 1024 < pow2 (bitlen m + e)" by (simp add: pow2_add)
    then show "1024 < bitlen m + e" by (simp only: pow2_less_iff)
  next
    assume "1024 < bitlen m + e"
    then have "1024 \<le> bitlen m - 1 + e" by simp
    then have "pow2 1024 \<le> pow2 (bitlen m - 1 + e)" by (simp only: pow2_le_iff)
    also have "\<dots> = pow2 (bitlen m - 1) * pow2 e" by (simp only: pow2_add)
    also have "\<dots> \<le> of_int m * pow2 e" using b(1) pow2_pos [of e] by simp
    finally show "pow2 1024 \<le> of_int m * pow2 e" .
  }
qed

text \<open>The result is an infinity exactly when the rounded multiple is \<open>2\<^sup>1\<^sup>0\<^sup>2\<^sup>4\<close> or more.\<close>

lemma round64_overflow:
  assumes "0 < a"
  shows "(round64 a = PosInf) =
           (pow2 1024 \<le> of_int (round_half_even (a / pow2 (max (floor_log2 a - 52) (- 1074))))
                             * pow2 (max (floor_log2 a - 52) (- 1074)))"
proof -
  let ?fl = "floor_log2 a"
  let ?e = "max (?fl - 52) (- 1074)"
  let ?m = "round_half_even (a / pow2 ?e)"
  have m0: "0 \<le> ?m" using assms pow2_pos [of ?e] by (intro round_half_even_nonneg) simp
  have r: "(round64 a = PosInf) = (1024 < bitlen ?m + ?e)"
    by (simp add: round64_pos [OF assms])
  show ?thesis
  proof (cases "?m = 0")
    case False
    with m0 have "0 < ?m" by simp
    from overflow_iff [OF this] r show ?thesis by simp
  next
    case True
    have "pow2 (?fl - ?e) = pow2 ?fl / pow2 ?e"
      using pow2_add [of "?fl - ?e" ?e] pow2_pos [of ?e] by (simp add: field_simps)
    also have "\<dots> \<le> a / pow2 ?e"
      using floor_log2_bounds(1) [OF assms] pow2_pos [of ?e] by (simp add: divide_right_mono)
    also have "\<dots> \<le> 1 / 2"
    proof -
      have "\<bar>of_int ?m - a / pow2 ?e\<bar> \<le> 1 / 2" by (rule round_half_even_error)
      then have "\<bar>a / pow2 ?e\<bar> \<le> 1 / 2" unfolding True by simp
      then show ?thesis by linarith
    qed
    also have "\<dots> < pow2 0" by (simp add: pow2_def)
    finally have "?fl - ?e < 0" by (simp only: pow2_less_iff)
    then have "?e = - 1074" by simp
    then have "\<not> 1024 < bitlen ?m + ?e" using True by simp
    moreover have "\<not> pow2 1024 \<le> of_int ?m * pow2 ?e"
      using True pow2_pos [of 1024] by (simp add: not_le)
    ultimately show ?thesis using r by simp
  qed
qed

lemma round64_nearest:
  assumes "0 < a" and "round64 a = Fin x"
  shows "\<bar>x - a\<bar> \<le> pow2 (max (floor_log2 a - 52) (- 1074)) / 2"
proof -
  let ?e = "max (floor_log2 a - 52) (- 1074)"
  let ?m = "round_half_even (a / pow2 ?e)"
  from assms have x: "x = of_int ?m * pow2 ?e"
    by (simp add: round64_pos split: if_splits)
  have "x - a = (of_int ?m - a / pow2 ?e) * pow2 ?e"
    using pow2_pos [of ?e] by (simp add: x field_simps)
  then have "\<bar>x - a\<bar> = \<bar>of_int ?m - a / pow2 ?e\<bar> * pow2 ?e"
    using pow2_pos [of ?e] by (simp add: abs_mult)
  also have "\<dots> \<le> 1 / 2 * pow2 ?e"
    using round_half_even_error [of "a / pow2 ?e"] pow2_pos [of ?e]
    by (intro mult_right_mono) simp_all
  finally show ?thesis by simp
qed

section \<open>Numbers read and written\<close>

lemma round64_examples:
  "round64 (1 / 10) = Fin (3602879701896397 / 36028797018963968)
   \<and> round64 (35 / 100) = Fin (3152519739159347 / 9007199254740992)
   \<and> round64 (1 / 2) = Fin (1 / 2)
   \<and> round64 (- 35) = Fin (- 35)"
  by code_simp

lemma parseFloat_examples:
  "parseFloat ''70'' = Fin 70 \<and> parseFloat ''0.5'' = Fin (1 / 2)
   \<and> parseFloat '' -1.5e3x'' = Fin (- 1500) \<and> parseFloat ''.5'' = Fin (1 / 2)
   \<and> parseFloat ''5.'' = Fin 5 \<and> parseFloat ''.'' = NaN \<and> parseFloat [] = NaN
   \<and> parseFloat ''-Infinity'' = NegInf \<and> parseFloat ''1e'' = Fin 1
   \<and> parseFloat ''abc'' = NaN \<and> parseFloat ''-0'' = Fin 0"
  by code_simp

lemma toFixed_examples:
  "toFixed 2 (Fin 35) = Some ''35.00'' \<and> toFixed 2 (round64 (1005 / 1000)) = Some ''1.00''
   \<and> toFixed 2 (Fin (1 / 200)) = Some ''0.01'' \<and> toFixed 2 (Fin (- 1 / 1000)) = Some ''-0.00''
   \<and> toFixed 0 (Fin (5 / 2)) = Some ''3'' \<and> toFixed 2 NaN = Some ''NaN''
   \<and> toFixed 2 (Fin (10 ^ 21)) = None"
  by code_simp

section \<open>The weight-based dose\<close>

lemma parseNum_Inr_iff:
  "parseNum v = Inr x \<longleftrightarrow> parseFloat v = x \<and> x \<noteq> NaN \<and> \<not> js_less x (Fin 0)"
  by (auto simp: parseNum_def Let_def isNaN_def)

lemma parseNum_zero:
  "parseFloat v = Fin 0 \<Longrightarrow> parseNum v = Inr (Fin 0)"
  by (simp add: parseNum_Inr_iff)

lemma lbs_per_kg_value: "lbs_per_kg = Fin (4964362905246771 / 2251799813685248)"
  by code_simp

lemma finalWeightKg_finite:
  assumes "parseNum v = Inr (Fin w)"
  shows "\<exists>k. finalWeightKg u (Fin w) = Fin k"
proof (cases "u = ''lbs''")
  case False
  then show ?thesis by (simp add: finalWeightKg_def)
next
  case True
  from assms have pf: "parseFloat v = Fin w" and w0: "0 \<le> w"
    by (simp_all add: parseNum_Inr_iff not_less)
  from parseFloat_Fin_bound [OF pf] w0 have wb: "w < pow2 1024" by simp
  let ?c = "4964362905246771 / 2251799813685248 :: rat"
  have div: "finalWeightKg u (Fin w) = round64 (w / ?c)"
    using True by (simp add: finalWeightKg_def lbs_per_kg_value)
  show ?thesis
  proof (cases "w = 0")
    case True
    with div show ?thesis by (simp add: round64_zero)
  next
    case False
    with w0 have pos: "0 < w / ?c" by simp
    have "w / ?c \<le> w / 2" using w0 by (simp add: field_simps)
    also have "\<dots> < pow2 1024 / 2" using wb by simp
    also have "\<dots> = pow2 1023" by (simp add: pow2_def)
    finally have "w / ?c < pow2 1023" .
    from round64_finite [OF pos this] div show ?thesis by simp
  qed
qed

lemma totalDoseNeeded_zero_dose: "totalDoseNeeded u (Fin k) (Fin 0) = Fin 0"
  by (simp add: totalDoseNeeded_def round64_zero)

lemma zero_concentration:
  assumes "parseNum v = Inr concInMl" and "\<not> js_eq concInMl (Fin 0)"
  shows "js_div (Fin 0) concInMl = Fin 0"
  using assms by (cases concInMl) (auto simp: parseNum_Inr_iff js_eq_def round64_zero)

lemma toFixed_zero: "toFixed 2 (Fin 0) = Some ''0.00''"
  by code_simp

lemma js_eq_zero: "js_eq (Fin 0) (Fin 0)"
  by (simp add: js_eq_def)

lemma weight_dose_zero_concentration:
  assumes "parseNum (patientWeight st) = Inr weight"
    and "parseNum (concMl st) = Inr concInMl" and "\<not> js_eq concInMl (Fin 0)"
    and "parseFloat (concMgPerMl st) = Fin 0"
    and "parseNum (doseRequired st) = Inr doseReq"
  shows "weight_dose st =
     (if js_eq (totalDoseNeeded (doseUnit st) (finalWeightKg (weightUnit st) weight) doseReq) (Fin 0)
      then Some (Inr (st\<lparr>weightDoseResult :=
             Some ''Total Dose: 0.00 mg. Volume to Administer: 0.00 mL.''\<rparr>))
      else Some (Inl ''Drug concentration (mg) cannot be zero if dose is required.''))"
proof -
  have mg: "parseNum (concMgPerMl st) = Inr (Fin 0)" using assms(4) by (rule parseNum_zero)
  have conc: "js_div (Fin 0) concInMl = Fin 0" using assms(2,3) by (rule zero_concentration)
  let ?total = "totalDoseNeeded (doseUnit st) (finalWeightKg (weightUnit st) weight) doseReq"
  show ?thesis
  proof (cases "js_eq ?total (Fin 0)")
    case True
    then have t: "?total = Fin 0" by (simp add: js_eq_def)
    have "\<not> js_eq (Fin 0) PosInf" by (simp add: js_eq_def)
    then show ?thesis
      using True by (simp add: weight_dose_def assms(1,2,3,5) mg conc t js_eq_zero toFixed_zero)
  next
    case False
    then show ?thesis
      by (simp add: weight_dose_def assms(1,2,3,5) mg conc js_eq_zero)
  qed
qed

lemma handleCalculate_weight_dose:
  assumes "calculationType st = ''WEIGHT_DOSE''"
  shows "handleCalculate st =
     (let cleared = st\<lparr>error := None, weightDoseResult := None, dripRateResult := None,
                         conversionResult := None\<rparr>
      in case weight_dose cleared of
           None \<Rightarrow> None
         | Some (Inr st') \<Rightarrow> Some st'
         | Some (Inl message) \<Rightarrow>
             Some (cleared\<lparr>error := Some (if message = [] then ''An unexpected error occurred.''
                                           else message)\<rparr>))"
  using assms by (simp add: handleCalculate_def Let_def)

lemma parseNum_Inl:
  "parseNum v = Inl e \<Longrightarrow> e = ''Invalid input: All numerical inputs must be positive numbers.''"
  by (auto simp: parseNum_def Let_def split: if_splits)

lemma weight_dose_zero_concentration_cases:
  assumes "parseFloat (concMgPerMl st) = Fin 0"
  shows "(\<exists>message. weight_dose st = Some (Inl message) \<and> message \<noteq> [])
         \<or> weight_dose st = Some (Inr (st\<lparr>weightDoseResult :=
               Some ''Total Dose: 0.00 mg. Volume to Administer: 0.00 mL.''\<rparr>))"
proof -
  have mg: "parseNum (concMgPerMl st) = Inr (Fin 0)" using assms by (rule parseNum_zero)
  show ?thesis
  proof (cases "parseNum (patientWeight st)")
    case (Inl e)
    with parseNum_Inl [OF Inl] show ?thesis by (simp add: weight_dose_def)
  next
    case weight: (Inr weight)
    show ?thesis
    proof (cases "parseNum (concMl st)")
      case (Inl e)
      with parseNum_Inl [OF Inl] weight mg show ?thesis by (simp add: weight_dose_def)
    next
      case ml: (Inr concInMl)
      show ?thesis
      proof (cases "js_eq concInMl (Fin 0)")
        case True
        with weight mg ml show ?thesis by (simp add: weight_dose_def)
      next
        case nz: False
        show ?thesis
        proof (cases "parseNum (doseRequired st)")
          case (Inl e)
          with parseNum_Inl [OF Inl] weight mg ml nz show ?thesis
            by (simp add: weight_dose_def Let_def)
        next
          case (Inr doseReq)
          from weight_dose_zero_concentration [OF weight ml nz assms Inr] show ?thesis
            by (simp split: if_splits)
        qed
      qed
    qed
  qed
qed

lemma handleCalculate_zero_concentration:
  assumes "calculationType st = ''WEIGHT_DOSE''" and "parseFloat (concMgPerMl st) = Fin 0"
  shows "\<exists>st'. handleCalculate st = Some st'
           \<and> (weightDoseResult st' = None
               \<or> weightDoseResult st'
                    = Some ''Total Dose: 0.00 mg. Volume to Administer: 0.00 mL.'')"
proof -
  let ?cleared = "st\<lparr>error := None, weightDoseResult := None, dripRateResult := None,
                      conversionResult := None\<rparr>"
  have "parseFloat (concMgPerMl ?cleared) = Fin 0" using assms(2) by simp
  from weight_dose_zero_concentration_cases [OF this] show ?thesis
    by (auto simp: handleCalculate_weight_dose [OF assms(1)])
qed

text \<open>
  C7: with patient weight 70 kg, drug concentration 100 mg per 1 mL and required dose
  0.5 mg/kg, the calculation shows the result
  \<open>Total Dose: 35.00 mg. Volume to Administer: 0.35 mL.\<close> and no error. (The volume is the
  binary64 quotient of 35 by 100, just below 0.35, which \<open>toFixed(2)\<close> writes \<open>0.35\<close>.)
\<close>

theorem dose_example_result:
  "handleCalculate dose_example
     = Some (dose_example\<lparr>weightDoseResult :=
         Some ''Total Dose: 35.00 mg. Volume to Administer: 0.35 mL.''\<rparr>)"
  by code_simp

lemma zero_concentration_error:
  assumes "calculationType st = ''WEIGHT_DOSE''"
    and "parseNum (patientWeight st) = Inr weight"
    and "parseNum (concMl st) = Inr concInMl" and "\<not> js_eq concInMl (Fin 0)"
    and "parseFloat (concMgPerMl st) = Fin 0"
    and "parseNum (doseRequired st) = Inr doseReq"
    and "\<not> js_eq (totalDoseNeeded (doseUnit st) (finalWeightKg (weightUnit st) weight) doseReq)
               (Fin 0)"
  shows "handleCalculate st =
           Some (st\<lparr>error := Some ''Drug concentration (mg) cannot be zero if dose is required.'',
                    weightDoseResult := None, dripRateResult := None,
                    conversionResult := None\<rparr>)"
proof -
  let ?cleared = "st\<lparr>error := None, weightDoseResult := None, dripRateResult := None,
                      conversionResult := None\<rparr>"
  have "weight_dose ?cleared
          = Some (Inl ''Drug concentration (mg) cannot be zero if dose is required.'')"
    using assms(2-7)
    by (subst weight_dose_zero_concentration [of _ weight concInMl doseReq]) simp_all
  then show ?thesis
    by (simp add: handleCalculate_weight_dose [OF assms(1)])
qed

lemma no_weight_inputs:
  "parseFloat (concMgPerMl no_weight_no_concentration) = Fin 0
   \<and> parseFloat (doseRequired no_weight_no_concentration) = Fin (1 / 2)"
  by code_simp

lemma no_weight_result:
  "handleCalculate no_weight_no_concentration
     = Some (no_weight_no_concentration\<lparr>weightDoseResult :=
         Some ''Total Dose: 0.00 mg. Volume to Administer: 0.00 mL.''\<rparr>)"
  by code_simp

lemma no_weight_error: "error no_weight_no_concentration = None"
  by code_simp

text \<open>
  C6, as stated: whenever the concentration numerator is 0 and the required dose is not,
  a message that the volume cannot be calculated is reported. It fails for weight 0,
  concentration 0 mg per 1 mL and dose 0.5 mg/kg: the total dose is 0, no error is set and
  the result \<open>Total Dose: 0.00 mg. Volume to Administer: 0.00 mL.\<close> is shown.
\<close>

theorem zero_concentration_counterexample:
  "parseFloat (concMgPerMl no_weight_no_concentration) = Fin 0
   \<and> \<not> js_eq (parseFloat (doseRequired no_weight_no_concentration)) (Fin 0)
   \<and> map_option error (handleCalculate no_weight_no_concentration) = Some None
   \<and> map_option weightDoseResult (handleCalculate no_weight_no_concentration)
       = Some (Some ''Total Dose: 0.00 mg. Volume to Administer: 0.00 mL.'')"
  by (simp add: no_weight_inputs no_weight_result no_weight_error js_eq_def)

text \<open>
  C6, amended: in the weight-based dose calculation, whenever the concentration numerator
  (mg) is 0, the calculation returns normally (every error is caught inside
  \<open>handleCalculate\<close>) and shows either no result or the result
  \<open>Total Dose: 0.00 mg. Volume to Administer: 0.00 mL.\<close>, so neither \<open>Infinity\<close> nor \<open>NaN\<close>
  is displayed; and when moreover the weight, the concentration volume and the required
  dose pass validation, the concentration volume is not zero and the total dose needed
  (the weight in kg times the required dose, over 1000 for mcg/kg) is not zero, it sets the
  error message \<open>Drug concentration (mg) cannot be zero if dose is required.\<close> and shows
  no result.
\<close>

theorem zero_concentration_reported:
  assumes "calculationType st = ''WEIGHT_DOSE''" and "parseFloat (concMgPerMl st) = Fin 0"
  shows "(\<exists>st'. handleCalculate st = Some st'
            \<and> (weightDoseResult st' = None
                \<or> weightDoseResult st'
                     = Some ''Total Dose: 0.00 mg. Volume to Administer: 0.00 mL.''))
         \<and> (parseNum (patientWeight st) = Inr weight
              \<and> parseNum (concMl st) = Inr concInMl \<and> \<not> js_eq concInMl (Fin 0)
              \<and> parseNum (doseRequired st) = Inr doseReq
              \<and> \<not> js_eq (totalDoseNeeded (doseUnit st) (finalWeightKg (weightUnit st) weight)
                            doseReq) (Fin 0)
            \<longrightarrow> handleCalculate st =
                  Some (st\<lparr>error :=
                             Some ''Drug concentration (mg) cannot be zero if dose is required.'',
                           weightDoseResult := None, dripRateResult := None,
                           conversionResult := None\<rparr>))"
  using handleCalculate_zero_concentration [OF assms]
    zero_concentration_error [OF assms(1) _ _ _ assms(2)]
  by blast

lemma no_concentration_inputs:
  "calculationType no_concentration = ''WEIGHT_DOSE''
   \<and> parseNum (patientWeight no_concentration) = Inr (Fin 70)
   \<and> parseNum (concMl no_concentration) = Inr (Fin 1)
   \<and> parseFloat (concMgPerMl no_concentration) = Fin 0
   \<and> parseNum (doseRequired no_concentration) = Inr (Fin (1 / 2))
   \<and> totalDoseNeeded (doseUnit no_concentration)
        (finalWeightKg (weightUnit no_concentration) (Fin 70)) (Fin (1 / 2)) = Fin 35"
  by code_simp

theorem zero_concentration_reported_witness:
  "calculationType no_concentration = ''WEIGHT_DOSE''
   \<and> parseNum (patientWeight no_concentration) = Inr (Fin 70)
   \<and> parseNum (concMl no_concentration) = Inr (Fin 1) \<and> \<not> js_eq (Fin 1) (Fin 0)
   \<and> parseFloat (concMgPerMl no_concentration) = Fin 0
   \<and> parseNum (doseRequired no_concentration) = Inr (Fin (1 / 2))
   \<and> \<not> js_eq (totalDoseNeeded (doseUnit no_concentration)
               (finalWeightKg (weightUnit no_concentration) (Fin 70)) (Fin (1 / 2))) (Fin 0)
   \<and> handleCalculate no_concentration =
           Some (no_concentration
                  \<lparr>error := Some ''Drug concentration (mg) cannot be zero if dose is required.'',
                   weightDoseResult := None, dripRateResult := None,
                   conversionResult := None\<rparr>)"
proof -
  note i = no_concentration_inputs
  have ml: "\<not> js_eq (Fin 1) (Fin 0)" by (simp add: js_eq_def)
  have total: "\<not> js_eq (totalDoseNeeded (doseUnit no_concentration)
               (finalWeightKg (weightUnit no_concentration) (Fin 70)) (Fin (1 / 2))) (Fin 0)"
    using i by (simp add: js_eq_def)
  from zero_concentration_reported [of no_concentration "Fin 70" "Fin 1" "Fin (1 / 2)"] i ml total
  show ?thesis by blast
qed

text \<open>
  C10: \<open>parseNum\<close> rejects a value exactly when \<open>parseFloat\<close> gives NaN or a number below
  0, so an input that parses to 0 passes; and in the weight-based dose calculation, when
  the concentration numerator (mg) and the required dose both parse to 0, the weight is a
  valid finite number and the concentration volume is valid and not zero, the calculation
  succeeds with no error and the result
  \<open>Total Dose: 0.00 mg. Volume to Administer: 0.00 mL.\<close>
\<close>

theorem zero_dose_zero_concentration:
  assumes "calculationType st = ''WEIGHT_DOSE''"
    and "parseNum (patientWeight st) = Inr (Fin w)"
    and "parseNum (concMl st) = Inr concInMl" and "\<not> js_eq concInMl (Fin 0)"
    and "parseFloat (concMgPerMl st) = Fin 0"
    and "parseFloat (doseRequired st) = Fin 0"
  shows "(parseNum val = Inr x) = (parseFloat val = x \<and> x \<noteq> NaN \<and> \<not> js_less x (Fin 0))
         \<and> parseNum (concMgPerMl st) = Inr (Fin 0)
         \<and> parseNum (doseRequired st) = Inr (Fin 0)
         \<and> handleCalculate st =
             Some (st\<lparr>error := None,
                      weightDoseResult :=
                        Some ''Total Dose: 0.00 mg. Volume to Administer: 0.00 mL.'',
                      dripRateResult := None, conversionResult := None\<rparr>)"
proof -
  let ?cleared = "st\<lparr>error := None, weightDoseResult := None, dripRateResult := None,
                      conversionResult := None\<rparr>"
  have mg: "parseNum (concMgPerMl st) = Inr (Fin 0)" using assms(5) by (rule parseNum_zero)
  have dose: "parseNum (doseRequired st) = Inr (Fin 0)" using assms(6) by (rule parseNum_zero)
  obtain k where k: "finalWeightKg (weightUnit st) (Fin w) = Fin k"
    using finalWeightKg_finite [OF assms(2)] by blast
  have total: "totalDoseNeeded (doseUnit st) (finalWeightKg (weightUnit st) (Fin w)) (Fin 0) = Fin 0"
    by (simp add: k totalDoseNeeded_zero_dose)
  have "weight_dose ?cleared
          = Some (Inr (?cleared\<lparr>weightDoseResult :=
               Some ''Total Dose: 0.00 mg. Volume to Administer: 0.00 mL.''\<rparr>))"
    using assms(2-5) dose total
    by (subst weight_dose_zero_concentration [of _ "Fin w" concInMl "Fin 0"])
       (simp_all add: js_eq_zero)
  then have "handleCalculate st =
             Some (st\<lparr>error := None,
                      weightDoseResult :=
                        Some ''Total Dose: 0.00 mg. Volume to Administer: 0.00 mL.'',
                      dripRateResult := None, conversionResult := None\<rparr>)"
    by (simp add: handleCalculate_weight_dose [OF assms(1)])
  with mg dose parseNum_Inr_iff [of val x] show ?thesis by blast
qed

lemma no_dose_inputs:
  "calculationType no_dose_no_concentration = ''WEIGHT_DOSE''
   \<and> parseNum (patientWeight no_dose_no_concentration) = Inr (Fin 70)
   \<and> parseNum (concMl no_dose_no_concentration) = Inr (Fin 1)
   \<and> parseFloat (concMgPerMl no_dose_no_concentration) = Fin 0
   \<and> parseFloat (doseRequired no_dose_no_concentration) = Fin 0"
  by code_simp

theorem zero_dose_zero_concentration_witness:
  "calculationType no_dose_no_concentration = ''WEIGHT_DOSE''
   \<and> parseNum (patientWeight no_dose_no_concentration) = Inr (Fin 70)
   \<and> parseNum (concMl no_dose_no_concentration) = Inr (Fin 1) \<and> \<not> js_eq (Fin 1) (Fin 0)
   \<and> parseFloat (concMgPerMl no_dose_no_concentration) = Fin 0
   \<and> parseFloat (doseRequired no_dose_no_concentration) = Fin 0
   \<and> parseNum (doseRequired no_dose_no_concentration) = Inr (Fin 0)
   \<and> handleCalculate no_dose_no_concentration =
        Some (no_dose_no_concentration
               \<lparr>error := None,
                weightDoseResult :=
                  Some ''Total Dose: 0.00 mg. Volume to Administer: 0.00 mL.'',
                dripRateResult := None, conversionResult := None\<rparr>)"
proof -
  note i = no_dose_inputs
  have ml: "\<not> js_eq (Fin 1) (Fin 0)" by (simp add: js_eq_def)
  from zero_dose_zero_concentration [of no_dose_no_concentration 70 "Fin 1"] i ml
  show ?thesis by blast
qed

section \<open>Further runs of the calculator\<close>

text \<open>
  The drip rate for 1000 mL over 60 minutes with the 60 gtts/mL set, a weight in pounds,
  and an infinite weight, which passes validation and makes the total dose NaN.
\<close>

lemma drip_rate_example:
  "handleCalculate
     (initial_calc\<lparr>calculationType := ''DRIP_RATE'', totalVolume := ''1000'', totalTime := ''60''\<rparr>)
   = Some (initial_calc\<lparr>calculationType := ''DRIP_RATE'', totalVolume := ''1000'',
             totalTime := ''60'', dripRateResult := Some ''Drip Rate: 1000 gtts/min.''\<rparr>)"
  by code_simp

lemma pounds_example:
  "handleCalculate
     ((weight_dose_inputs ''154'' ''100'' ''1'' ''0.5'')\<lparr>weightUnit := ''lbs''\<rparr>)
   = Some ((weight_dose_inputs ''154'' ''100'' ''1'' ''0.5'')
             \<lparr>weightUnit := ''lbs'',
              weightDoseResult := Some ''Total Dose: 34.93 mg. Volume to Administer: 0.35 mL.''\<rparr>)"
  by code_simp

lemma infinite_weight_example:
  "handleCalculate (weight_dose_inputs ''Infinity'' ''0'' ''1'' ''0'')
   = Some ((weight_dose_inputs ''Infinity'' ''0'' ''1'' ''0'')
             \<lparr>error := Some ''Drug concentration (mg) cannot be zero if dose is required.''\<rparr>)"
  by code_simp

end
